theory Spec2Isabelle
  imports Complex_Main
begin

section \<open>The pet's state (pet.py, class PetState)\<close>

text \<open>
  The dataclass \<^verbatim>\<open>PetState\<close> with its six fields. Python floats are read as real
  numbers (finite values, exact arithmetic); the level is a Python integer, which is
  unbounded.
\<close>

record PetState =
  hunger :: real
  thirst :: real
  happiness :: real
  level :: int
  last_level_update :: real
  is_neglected :: bool

text \<open>The field defaults of the dataclass: what \<^verbatim>\<open>PetState()\<close> builds.\<close>

definition PetState_default :: PetState where
  "PetState_default =
     \<lparr>hunger = 0, thirst = 0, happiness = 100, level = 1,
      last_level_update = 0, is_neglected = False\<rparr>"

section \<open>Settings (settings.py)\<close>

definition STAT_DECAY_PER_MIN :: real where
  "STAT_DECAY_PER_MIN = 1 / 60"

definition FEED_AMOUNT :: real where
  "FEED_AMOUNT = 25"

definition PLAY_AMOUNT :: real where
  "PLAY_AMOUNT = 25"

section \<open>Game logic (pet.py, Pet.tick)\<close>

text \<open>Python's \<^verbatim>\<open>int(x)\<close> on a float truncates toward zero.\<close>

definition py_int :: "real \<Rightarrow> int" where
  "py_int x = (if 0 \<le> x then \<lfloor>x\<rfloor> else \<lceil>x\<rceil>)"

text \<open>
  \<^verbatim>\<open>Pet.tick\<close> reads the wall clock twice: inside the recovery branch (the value
  \<open>t_recover\<close> here) and once more, unconditionally, for the level check (\<open>now\<close>).
  Both readings are parameters of the model. The body follows the source line by line;
  each assignment to a field of \<^verbatim>\<open>s\<close> is a record update.
\<close>

definition tick :: "PetState \<Rightarrow> real \<Rightarrow> real \<Rightarrow> real \<Rightarrow> real \<Rightarrow> PetState" where
  "tick s minutes_elapsed decay_rate t_recover now =
     (let s1 = s\<lparr>hunger := min 100 (hunger s + decay_rate * minutes_elapsed)\<rparr>;
          s2 = s1\<lparr>thirst := min 100 (thirst s1 + decay_rate * minutes_elapsed)\<rparr>;
          s3 = s2\<lparr>happiness := max 0 (happiness s2 - decay_rate * minutes_elapsed)\<rparr>;
          food_bar = max 0 (100 - hunger s3);
          water_bar = max 0 (100 - thirst s3);
          heart_bar = happiness s3;
          was_neglected = is_neglected s3;
          s4 = s3\<lparr>is_neglected := (food_bar \<le> 0 \<and> water_bar \<le> 0 \<and> heart_bar \<le> 0)\<rparr>;
          s5 = (if was_neglected \<and> \<not> is_neglected s4
                then s4\<lparr>last_level_update := t_recover\<rparr> else s4);
          time_since_level_update = now - last_level_update s5
      in if time_since_level_update \<ge> 86400 then
           (let days_elapsed = py_int (time_since_level_update / 86400);
                s6 = (if is_neglected s5
                      then s5\<lparr>level := max 1 (level s5 - days_elapsed)\<rparr>
                      else s5\<lparr>level := level s5 + days_elapsed\<rparr>)
            in s6\<lparr>last_level_update := now\<rparr>)
         else s5)"

section \<open>Player actions (pet.py, Pet.feed, Pet.drink, Pet.play, Pet.reset)\<close>

text \<open>
  Each handler updates one field; the line it prints is left out of the model.
\<close>

definition feed :: "PetState \<Rightarrow> real \<Rightarrow> PetState" where
  "feed s amount = s\<lparr>hunger := max 0 (hunger s - amount)\<rparr>"

definition drink :: "PetState \<Rightarrow> real \<Rightarrow> PetState" where
  "drink s amount = s\<lparr>thirst := max 0 (thirst s - amount)\<rparr>"

definition play :: "PetState \<Rightarrow> real \<Rightarrow> PetState" where
  "play s amount = s\<lparr>happiness := min 100 (happiness s + amount)\<rparr>"

text \<open>\<^verbatim>\<open>Pet.reset\<close> replaces the state by the defaults and stamps it with the clock.\<close>

definition reset :: "real \<Rightarrow> PetState" where
  "reset now = PetState_default\<lparr>last_level_update := now\<rparr>"

section \<open>Mood (pet.py, Pet.mood)\<close>

datatype mood_t = hungry | thirsty | sad | happy

text \<open>The three bars as \<^verbatim>\<open>Pet.mood\<close> computes them (higher is better).\<close>

definition food_bar :: "PetState \<Rightarrow> real" where
  "food_bar s = 100 - hunger s"

definition water_bar :: "PetState \<Rightarrow> real" where
  "water_bar s = 100 - thirst s"

definition heart_bar :: "PetState \<Rightarrow> real" where
  "heart_bar s = happiness s"

definition mood :: "PetState \<Rightarrow> mood_t" where
  "mood s =
     (if food_bar s > 70 \<and> water_bar s > 70 \<and> heart_bar s > 70 then happy
      else if food_bar s < 30 then hungry
      else if water_bar s < 30 then thirsty
      else if heart_bar s < 30 then sad
      else (let min_stat = min (food_bar s) (min (water_bar s) (heart_bar s))
            in if min_stat = food_bar s then hungry
               else if min_stat = water_bar s then thirsty
               else sad))"

section \<open>Persistence (pet.py, Pet.load, Pet.save, Pet.__init__)\<close>

text \<open>
  What \<^verbatim>\<open>json.load\<close> returns: \<^verbatim>\<open>None\<close>, booleans, integers, floats, strings,
  lists, and dictionaries with string keys (an association list in the order of the
  text; a Python dictionary has no duplicate keys).
\<close>

datatype pyval =
    PNone
  | PBool bool
  | PInt int
  | PFloat real
  | PStr string
  | PList "pyval list"
  | PDict "(string \<times> pyval) list"

text \<open>
  A dataclass does not check its annotations: \<^verbatim>\<open>PetState(**data)\<close> stores whatever
  values \<^verbatim>\<open>data\<close> holds. The object that persistence handles is therefore a record
  of Python values; \<open>obj_of\<close> is the object of a state whose fields have their declared
  types, the states the game logic above works on.
\<close>

record PetObj =
  obj_hunger :: pyval
  obj_thirst :: pyval
  obj_happiness :: pyval
  obj_level :: pyval
  obj_last_level_update :: pyval
  obj_is_neglected :: pyval

definition obj_of :: "PetState \<Rightarrow> PetObj" where
  "obj_of s =
     \<lparr>obj_hunger = PFloat (hunger s), obj_thirst = PFloat (thirst s),
      obj_happiness = PFloat (happiness s), obj_level = PInt (level s),
      obj_last_level_update = PFloat (last_level_update s),
      obj_is_neglected = PBool (is_neglected s)\<rparr>"

text \<open>\<^verbatim>\<open>dataclasses.asdict\<close>: the fields in declaration order.\<close>

definition asdict :: "PetObj \<Rightarrow> pyval" where
  "asdict st =
     PDict [(''hunger'', obj_hunger st), (''thirst'', obj_thirst st),
            (''happiness'', obj_happiness st), (''level'', obj_level st),
            (''last_level_update'', obj_last_level_update st),
            (''is_neglected'', obj_is_neglected st)]"

text \<open>
  The exceptions of the two methods. An \<^verbatim>\<open>OSError\<close> names the path and the
  \<^verbatim>\<open>TypeError\<close> of an unexpected keyword argument names the keyword, so their
  texts differ from call to call; \<^verbatim>\<open>UnicodeEncodeError\<close> is what \<^verbatim>\<open>print\<close>
  raises when standard output cannot encode a line.
\<close>

datatype py_error =
    OSError string
  | JSONDecodeError
  | TypeError_not_a_mapping
  | TypeError_unexpected_keyword string
  | UnicodeEncodeError

definition field_names :: "string list" where
  "field_names =
     [''hunger'', ''thirst'', ''happiness'', ''level'', ''last_level_update'',
      ''is_neglected'']"

definition kwarg :: "(string \<times> pyval) list \<Rightarrow> string \<Rightarrow> pyval \<Rightarrow> pyval" where
  "kwarg kvs k dflt = (case map_of kvs k of Some v \<Rightarrow> v | None \<Rightarrow> dflt)"

text \<open>
  \<^verbatim>\<open>PetState(**data)\<close>: a \<^verbatim>\<open>TypeError\<close> when \<^verbatim>\<open>data\<close> is not a mapping, or,
  naming the first such key, when it holds a key that is not a field; a missing key
  takes the field's default. The values are stored as they are.
\<close>

fun PetState_init :: "pyval \<Rightarrow> py_error + PetObj" where
  "PetState_init (PDict kvs) =
     (case find (\<lambda>k. k \<notin> set field_names) (map fst kvs) of
        Some k \<Rightarrow> Inl (TypeError_unexpected_keyword k)
      | None \<Rightarrow>
          Inr \<lparr>obj_hunger = kwarg kvs ''hunger'' (PFloat 0),
               obj_thirst = kwarg kvs ''thirst'' (PFloat 0),
               obj_happiness = kwarg kvs ''happiness'' (PFloat 100),
               obj_level = kwarg kvs ''level'' (PInt 1),
               obj_last_level_update = kwarg kvs ''last_level_update'' (PFloat 0),
               obj_is_neglected = kwarg kvs ''is_neglected'' (PBool False)\<rparr>)"
| "PetState_init _ = Inl TypeError_not_a_mapping"

text \<open>
  The file system as the two methods see it. A path that exists holds a file that
  cannot be opened or read (\<open>Unreadable\<close>), text that \<^verbatim>\<open>json.load\<close> rejects
  (\<open>Malformed\<close>), or text that it parses to a value; \<^verbatim>\<open>json.dump\<close> writes the text
  that parses back to the value dumped. \<open>writable\<close> says whether
  \<^verbatim>\<open>open(path, "w")\<close> succeeds.
\<close>

datatype save_file = Unreadable | Malformed | Parsed pyval

record filesystem =
  files :: "string \<rightharpoonup> save_file"
  writable :: "string \<Rightarrow> bool"

text \<open>
  The lines the two methods print. Printing a line can fail: the parameter
  \<open>stdout_ok\<close> of the methods says for which lines \<^verbatim>\<open>print\<close> succeeds, and a
  \<^verbatim>\<open>print\<close> that fails raises.
\<close>

datatype log_msg = Loaded_state_from string | Failed_to_load py_error | Failed_to_save py_error

text \<open>\<^verbatim>\<open>open\<close> and \<^verbatim>\<open>json.load\<close> on a file that exists.\<close>

fun read_json :: "string \<Rightarrow> save_file \<Rightarrow> py_error + pyval" where
  "read_json save_path Unreadable = Inl (OSError save_path)"
| "read_json save_path Malformed = Inl JSONDecodeError"
| "read_json save_path (Parsed data) = Inr data"

text \<open>
  The body of the \<^verbatim>\<open>try\<close> block of \<^verbatim>\<open>Pet.load\<close>. It ends normally, with the
  new \<^verbatim>\<open>self.state\<close> and the line printed, or raises: \<open>Inl\<close> holds the exception
  and \<^verbatim>\<open>self.state\<close> at that moment. The last statement of the block is a
  \<^verbatim>\<open>print\<close>, which comes after the assignment to \<^verbatim>\<open>self.state\<close>.
\<close>

definition load_try ::
  "(log_msg \<Rightarrow> bool) \<Rightarrow> string \<Rightarrow> save_file \<Rightarrow> PetObj
     \<Rightarrow> (py_error \<times> PetObj) + (PetObj \<times> log_msg list)" where
  "load_try stdout_ok save_path f state =
     (case read_json save_path f of
        Inl e \<Rightarrow> Inl (e, state)
      | Inr data \<Rightarrow>
          (case PetState_init data of
             Inl e \<Rightarrow> Inl (e, state)
           | Inr loaded \<Rightarrow>
               if stdout_ok (Loaded_state_from save_path)
               then Inr (loaded, [Loaded_state_from save_path])
               else Inl (UnicodeEncodeError, loaded)))"

text \<open>
  \<^verbatim>\<open>Pet.load\<close>: nothing happens when the path does not exist; \<^verbatim>\<open>except Exception\<close>
  catches every error of the body and prints it, and an exception of that
  \<^verbatim>\<open>print\<close> leaves the method. The result is the exception raised to the caller
  (\<open>Inl\<close>), or the new \<^verbatim>\<open>self.state\<close> and the lines printed.
\<close>

definition load ::
  "(log_msg \<Rightarrow> bool) \<Rightarrow> filesystem \<Rightarrow> string \<Rightarrow> PetObj
     \<Rightarrow> py_error + (PetObj \<times> log_msg list)" where
  "load stdout_ok fs save_path state =
     (case files fs save_path of
        None \<Rightarrow> Inr (state, [])
      | Some f \<Rightarrow>
          (case load_try stdout_ok save_path f state of
             Inr res \<Rightarrow> Inr res
           | Inl (e, st) \<Rightarrow>
               if stdout_ok (Failed_to_load e) then Inr (st, [Failed_to_load e])
               else Inl UnicodeEncodeError))"

text \<open>
  \<^verbatim>\<open>Pet.save\<close>: the exception raised to the caller, or the new file system and the
  lines printed.
\<close>

definition save ::
  "(log_msg \<Rightarrow> bool) \<Rightarrow> filesystem \<Rightarrow> string \<Rightarrow> PetObj
     \<Rightarrow> py_error + (filesystem \<times> log_msg list)" where
  "save stdout_ok fs save_path state =
     (if writable fs save_path
      then Inr (fs\<lparr>files := (files fs)(save_path \<mapsto> Parsed (asdict state))\<rparr>, [])
      else if stdout_ok (Failed_to_save (OSError save_path))
      then Inr (fs, [Failed_to_save (OSError save_path)])
      else Inl UnicodeEncodeError)"

text \<open>Python's \<^verbatim>\<open>x == 0.0\<close>: numbers compare by value, and a boolean is an integer.\<close>

fun eq_zero :: "pyval \<Rightarrow> bool" where
  "eq_zero (PFloat r) = (r = 0)"
| "eq_zero (PInt i) = (i = 0)"
| "eq_zero (PBool b) = (\<not> b)"
| "eq_zero _ = False"

record Pet =
  save_path :: string
  state :: PetObj
  last_update :: real

text \<open>
  \<^verbatim>\<open>Pet.__init__\<close> starts from \<^verbatim>\<open>PetState()\<close> (\<open>PetObj_default\<close>), calls
  \<^verbatim>\<open>load\<close> and reads the clock twice: \<open>t0\<close> for \<^verbatim>\<open>_last_update\<close>, \<open>t1\<close> for the
  initial \<^verbatim>\<open>last_level_update\<close>. An exception of \<^verbatim>\<open>load\<close> leaves the constructor.
\<close>

definition PetObj_default :: PetObj where
  "PetObj_default =
     \<lparr>obj_hunger = PFloat 0, obj_thirst = PFloat 0, obj_happiness = PFloat 100,
      obj_level = PInt 1, obj_last_level_update = PFloat 0,
      obj_is_neglected = PBool False\<rparr>"

definition Pet_init ::
  "(log_msg \<Rightarrow> bool) \<Rightarrow> filesystem \<Rightarrow> string \<Rightarrow> real \<Rightarrow> real
     \<Rightarrow> py_error + (Pet \<times> log_msg list)" where
  "Pet_init stdout_ok fs path t0 t1 =
     (case load stdout_ok fs path PetObj_default of
        Inl e \<Rightarrow> Inl e
      | Inr (st, out) \<Rightarrow>
          (let st' = (if eq_zero (obj_last_level_update st)
                      then st\<lparr>obj_last_level_update := PFloat t1\<rparr> else st)
           in Inr (\<lparr>save_path = path, state = st', last_update = t0\<rparr>, out)))"

section \<open>Interaction (app.py, App.handle_events)\<close>

text \<open>
  \<^verbatim>\<open>pygame.Rect(x, y, w, h)\<close> with the three operations the event handler uses:
  the point test (left and top edges inside, right and bottom edges outside), the
  truth value (a rectangle of zero width or height is false) and the centre and top
  coordinates.
\<close>

record rect =
  rect_x :: int
  rect_y :: int
  rect_w :: int
  rect_h :: int

definition collidepoint :: "rect \<Rightarrow> int \<times> int \<Rightarrow> bool" where
  "collidepoint r pos \<longleftrightarrow>
     rect_x r \<le> fst pos \<and> fst pos < rect_x r + rect_w r \<and>
     rect_y r \<le> snd pos \<and> snd pos < rect_y r + rect_h r"

definition rect_bool :: "rect \<Rightarrow> bool" where
  "rect_bool r \<longleftrightarrow> rect_w r \<noteq> 0 \<and> rect_h r \<noteq> 0"

definition centerx :: "rect \<Rightarrow> int" where
  "centerx r = rect_x r + rect_w r div 2"

record heart =
  heart_x :: int
  heart_y :: real
  heart_age :: real
  heart_lifespan :: real

text \<open>
  The part of \<^verbatim>\<open>App\<close> that \<^verbatim>\<open>handle_events\<close> reads and writes. The pet's state has
  its declared types here; \<open>dragged_emoji\<close> and \<open>drag_pos\<close> are \<open>None\<close> or a value,
  \<open>emoji_rects\<close> is the dictionary in insertion order.
\<close>

record App =
  pet :: PetState
  pet_save_path :: string
  dragged_emoji :: "string option"
  drag_pos :: "(int \<times> int) option"
  emoji_rects :: "(string \<times> rect) list"
  pet_rect :: "rect option"
  floating_hearts :: "heart list"

text \<open>
  \<^verbatim>\<open>App.spawn_floating_hearts\<close>: nothing without a pet rectangle, otherwise three
  hearts for \<^verbatim>\<open>i\<close> in \<^verbatim>\<open>range(3)\<close>.
\<close>

definition new_heart :: "rect \<Rightarrow> int \<Rightarrow> heart" where
  "new_heart r i =
     \<lparr>heart_x = centerx r + (i - 1) * 20, heart_y = of_int (rect_y r),
      heart_age = - (of_int i * (1 / 10)), heart_lifespan = 3 / 2\<rparr>"

definition spawn_floating_hearts :: "App \<Rightarrow> App" where
  "spawn_floating_hearts a =
     (case pet_rect a of
        None \<Rightarrow> a
      | Some r \<Rightarrow>
          if \<not> rect_bool r then a
          else a\<lparr>floating_hearts := floating_hearts a @ map (new_heart r) [0, 1, 2]\<rparr>)"

datatype key = K_ESCAPE | K_f | K_d | K_p | K_r | K_other

datatype event =
    QUIT
  | MOUSEBUTTONDOWN "int \<times> int"
  | MOUSEMOTION "int \<times> int"
  | MOUSEBUTTONUP "int \<times> int"
  | KEYDOWN key
  | OTHER

text \<open>The loop over \<^verbatim>\<open>emoji_rects.items()\<close>: the first rectangle holding the point.\<close>

fun first_hit :: "(string \<times> rect) list \<Rightarrow> int \<times> int \<Rightarrow> string option" where
  "first_hit [] pos = None"
| "first_hit ((action_type, r) # rest) pos =
     (if collidepoint r pos then Some action_type else first_hit rest pos)"

text \<open>The truth value of \<^verbatim>\<open>self.dragged_emoji\<close>: neither \<^verbatim>\<open>None\<close> nor empty.\<close>

definition str_bool :: "string option \<Rightarrow> bool" where
  "str_bool d \<longleftrightarrow> (case d of None \<Rightarrow> False | Some t \<Rightarrow> t \<noteq> [])"

definition mouse_down :: "App \<Rightarrow> int \<times> int \<Rightarrow> App" where
  "mouse_down a pos =
     (case first_hit (emoji_rects a) pos of
        None \<Rightarrow> a
      | Some action_type \<Rightarrow> a\<lparr>dragged_emoji := Some action_type, drag_pos := Some pos\<rparr>)"

definition mouse_motion :: "App \<Rightarrow> int \<times> int \<Rightarrow> App" where
  "mouse_motion a pos = (if str_bool (dragged_emoji a) then a\<lparr>drag_pos := Some pos\<rparr> else a)"

text \<open>
  The \<^verbatim>\<open>MOUSEBUTTONUP\<close> branch. The drop is tested at \<^verbatim>\<open>self.drag_pos\<close>; the
  position of the event itself is not read.
\<close>

definition drop_action :: "App \<Rightarrow> App" where
  "drop_action a =
     (if dragged_emoji a = Some ''feed''
      then spawn_floating_hearts (a\<lparr>pet := feed (pet a) FEED_AMOUNT\<rparr>)
      else if dragged_emoji a = Some ''drink''
      then spawn_floating_hearts (a\<lparr>pet := drink (pet a) FEED_AMOUNT\<rparr>)
      else if dragged_emoji a = Some ''play''
      then spawn_floating_hearts (a\<lparr>pet := play (pet a) PLAY_AMOUNT\<rparr>)
      else a)"

definition mouse_up :: "App \<Rightarrow> int \<times> int \<Rightarrow> App" where
  "mouse_up a pos =
     (let a1 =
        (case drag_pos a of
           None \<Rightarrow> a
         | Some dp \<Rightarrow>
             if \<not> str_bool (dragged_emoji a) then a
             else (case pet_rect a of
                     None \<Rightarrow> a
                   | Some r \<Rightarrow> if rect_bool r \<and> collidepoint r dp then drop_action a else a))
      in a1\<lparr>dragged_emoji := None, drag_pos := None\<rparr>)"

text \<open>
  One iteration of the event loop, with the clock reading \<open>now\<close> that
  \<^verbatim>\<open>Pet.reset\<close> would take. The result is an exception of \<^verbatim>\<open>Pet.save\<close>, which
  leaves the loop, or says whether the loop goes on (\<open>False\<close> is the
  \<^verbatim>\<open>return False\<close> of the source).
\<close>

definition save_and_quit ::
  "(log_msg \<Rightarrow> bool) \<Rightarrow> filesystem \<Rightarrow> App \<Rightarrow> py_error + (bool \<times> filesystem \<times> App)" where
  "save_and_quit stdout_ok fs a =
     (case save stdout_ok fs (pet_save_path a) (obj_of (pet a)) of
        Inl e \<Rightarrow> Inl e
      | Inr (fs', out) \<Rightarrow> Inr (False, fs', a))"

definition key_down ::
  "(log_msg \<Rightarrow> bool) \<Rightarrow> filesystem \<Rightarrow> App \<Rightarrow> key \<Rightarrow> real
     \<Rightarrow> py_error + (bool \<times> filesystem \<times> App)" where
  "key_down stdout_ok fs a k now =
     (case k of
        K_ESCAPE \<Rightarrow> save_and_quit stdout_ok fs a
      | K_f \<Rightarrow> Inr (True, fs, spawn_floating_hearts (a\<lparr>pet := feed (pet a) FEED_AMOUNT\<rparr>))
      | K_d \<Rightarrow> Inr (True, fs, spawn_floating_hearts (a\<lparr>pet := drink (pet a) FEED_AMOUNT\<rparr>))
      | K_p \<Rightarrow> Inr (True, fs, spawn_floating_hearts (a\<lparr>pet := play (pet a) PLAY_AMOUNT\<rparr>))
      | K_r \<Rightarrow> Inr (True, fs, a\<lparr>pet := reset now\<rparr>)
      | K_other \<Rightarrow> Inr (True, fs, a))"

definition handle_event ::
  "(log_msg \<Rightarrow> bool) \<Rightarrow> filesystem \<Rightarrow> App \<Rightarrow> event \<Rightarrow> real
     \<Rightarrow> py_error + (bool \<times> filesystem \<times> App)" where
  "handle_event stdout_ok fs a e now =
     (case e of
        QUIT \<Rightarrow> save_and_quit stdout_ok fs a
      | MOUSEBUTTONDOWN pos \<Rightarrow> Inr (True, fs, mouse_down a pos)
      | MOUSEMOTION pos \<Rightarrow> Inr (True, fs, mouse_motion a pos)
      | MOUSEBUTTONUP pos \<Rightarrow> Inr (True, fs, mouse_up a pos)
      | KEYDOWN k \<Rightarrow> key_down stdout_ok fs a k now
      | OTHER \<Rightarrow> Inr (True, fs, a))"

text \<open>
  \<^verbatim>\<open>App.handle_events\<close> on the events of the queue, each with the clock reading at
  the time it is handled.
\<close>

fun handle_events ::
  "(log_msg \<Rightarrow> bool) \<Rightarrow> filesystem \<Rightarrow> App \<Rightarrow> (event \<times> real) list
     \<Rightarrow> py_error + (bool \<times> filesystem \<times> App)" where
  "handle_events stdout_ok fs a [] = Inr (True, fs, a)"
| "handle_events stdout_ok fs a ((e, now) # es) =
     (case handle_event stdout_ok fs a e now of
        Inl err \<Rightarrow> Inl err
      | Inr (True, fs', a') \<Rightarrow> handle_events stdout_ok fs' a' es
      | Inr (False, fs', a') \<Rightarrow> Inr (False, fs', a'))"

section \<open>Definitions for the properties\<close>

text \<open>The raw stats are within their range.\<close>

definition stats_in_range :: "PetState \<Rightarrow> bool" where
  "stats_in_range s \<longleftrightarrow>
     0 \<le> hunger s \<and> hunger s \<le> 100 \<and>
     0 \<le> thirst s \<and> thirst s \<le> 100 \<and>
     0 \<le> happiness s \<and> happiness s \<le> 100"

text \<open>
  The three blocks of \<^verbatim>\<open>Pet.tick\<close>, in the order of the source: the decay of the
  stats, the neglect check with the recovery branch, and the level update.
  \<open>tick_stages\<close> below shows that \<open>tick\<close> is their composition.
\<close>

definition decay_stats :: "PetState \<Rightarrow> real \<Rightarrow> real \<Rightarrow> PetState" where
  "decay_stats s minutes_elapsed decay_rate =
     (let s1 = s\<lparr>hunger := min 100 (hunger s + decay_rate * minutes_elapsed)\<rparr>;
          s2 = s1\<lparr>thirst := min 100 (thirst s1 + decay_rate * minutes_elapsed)\<rparr>
      in s2\<lparr>happiness := max 0 (happiness s2 - decay_rate * minutes_elapsed)\<rparr>)"

definition check_neglect :: "PetState \<Rightarrow> real \<Rightarrow> PetState" where
  "check_neglect s3 t_recover =
     (let food_bar = max 0 (100 - hunger s3);
          water_bar = max 0 (100 - thirst s3);
          heart_bar = happiness s3;
          was_neglected = is_neglected s3;
          s4 = s3\<lparr>is_neglected := (food_bar \<le> 0 \<and> water_bar \<le> 0 \<and> heart_bar \<le> 0)\<rparr>
      in if was_neglected \<and> \<not> is_neglected s4
         then s4\<lparr>last_level_update := t_recover\<rparr> else s4)"

definition update_level :: "PetState \<Rightarrow> real \<Rightarrow> PetState" where
  "update_level s5 now =
     (let time_since_level_update = now - last_level_update s5
      in if time_since_level_update \<ge> 86400 then
           (let days_elapsed = py_int (time_since_level_update / 86400);
                s6 = (if is_neglected s5
                      then s5\<lparr>level := max 1 (level s5 - days_elapsed)\<rparr>
                      else s5\<lparr>level := level s5 + days_elapsed\<rparr>)
            in s6\<lparr>last_level_update := now\<rparr>)
         else s5)"

text \<open>
  All three bars are at 0 once the decay of a tick of \<open>m\<close> minutes at rate \<open>d\<close> is
  applied to the state \<open>s\<close>: the condition of the neglect check, on the state the
  tick is given.
\<close>

definition neglected_after_decay :: "PetState \<Rightarrow> real \<Rightarrow> real \<Rightarrow> bool" where
  "neglected_after_decay s m d \<longleftrightarrow>
     100 \<le> hunger s + d * m \<and> 100 \<le> thirst s + d * m \<and> happiness s \<le> d * m"

text \<open>
  The mood as the specification words it: happy above 70 on all bars, then the first
  bar below 30 in the order food, water, heart, then the lowest bar, food before water
  before heart on a tie.
\<close>

definition mood_spec :: "PetState \<Rightarrow> mood_t" where
  "mood_spec s =
     (if food_bar s > 70 \<and> water_bar s > 70 \<and> heart_bar s > 70 then happy
      else if food_bar s < 30 then hungry
      else if water_bar s < 30 then thirsty
      else if heart_bar s < 30 then sad
      else if food_bar s \<le> water_bar s \<and> food_bar s \<le> heart_bar s then hungry
      else if water_bar s \<le> heart_bar s then thirsty
      else sad)"

text \<open>
  Three states for the examples: a healthy pet, a neglected one, and one that is a
  hundred-thousandth of a point of happiness away from neglect with the flag not set.
\<close>

definition pet_fresh :: PetState where
  "pet_fresh = PetState_default\<lparr>level := 5, last_level_update := 1000\<rparr>"

definition pet_starved :: PetState where
  "pet_starved =
     \<lparr>hunger = 100, thirst = 100, happiness = 0, level = 1,
      last_level_update = 1000, is_neglected = True\<rparr>"

definition pet_on_the_brink :: PetState where
  "pet_on_the_brink =
     \<lparr>hunger = 100, thirst = 100, happiness = 1 / 100000, level = 4,
      last_level_update = 1000, is_neglected = False\<rparr>"

text \<open>
  The data that \<^verbatim>\<open>PetState(**data)\<close> accepts: a dictionary all of whose keys are
  fields.
\<close>

definition has_only_fields :: "pyval \<Rightarrow> bool" where
  "has_only_fields data \<longleftrightarrow>
     (case data of PDict kvs \<Rightarrow> list_all (\<lambda>k. k \<in> set field_names) (map fst kvs) | _ \<Rightarrow> False)"

text \<open>
  The error for data it does not accept: the first key that is not a field, in the
  order of the file, or that the data is not a dictionary.
\<close>

definition rejection :: "pyval \<Rightarrow> py_error" where
  "rejection data =
     (case data of
        PDict kvs \<Rightarrow>
          (case filter (\<lambda>k. k \<notin> set field_names) (map fst kvs) of
             k # ks \<Rightarrow> TypeError_unexpected_keyword k
           | [] \<Rightarrow> TypeError_not_a_mapping)
      | _ \<Rightarrow> TypeError_not_a_mapping)"

text \<open>\<^verbatim>\<open>Pet.save\<close> followed by \<^verbatim>\<open>Pet.load\<close> on the file system it leaves.\<close>

definition save_then_load ::
  "(log_msg \<Rightarrow> bool) \<Rightarrow> filesystem \<Rightarrow> string \<Rightarrow> PetObj \<Rightarrow> PetObj
     \<Rightarrow> py_error + (PetObj \<times> log_msg list)" where
  "save_then_load stdout_ok fs p st cur =
     (case save stdout_ok fs p st of
        Inl e \<Rightarrow> Inl e
      | Inr (fs', out) \<Rightarrow> load stdout_ok fs' p cur)"

text \<open>
  File systems for the examples: an empty one, and one with a file that does not
  parse, a directory, a save file with a field of another version, a JSON list, a save
  file with a string for the hunger, one with the hunger alone, and one with a key
  that is not ASCII.
\<close>

definition fs_empty :: filesystem where
  "fs_empty = \<lparr>files = Map.empty, writable = (\<lambda>p. True)\<rparr>"

definition fs_corrupt :: filesystem where
  "fs_corrupt =
     \<lparr>files = [''bad.json'' \<mapsto> Malformed, ''dir'' \<mapsto> Unreadable,
               ''old.json'' \<mapsto> Parsed (PDict [(''hunger'', PFloat 5), (''energy'', PInt 3)]),
               ''list.json'' \<mapsto> Parsed (PList []),
               ''typed.json'' \<mapsto> Parsed (PDict [(''hunger'', PStr ''abc'')]),
               ''half.json'' \<mapsto> Parsed (PDict [(''hunger'', PFloat 50)]),
               ''odd.json'' \<mapsto> Parsed (PDict [([CHR 0xED, CHR 0xA0, CHR 0x80], PInt 1)])],
      writable = (\<lambda>p. True)\<rparr>"

text \<open>
  Two standard outputs for the examples: one that prints every line, and one that
  encodes ASCII only, so that a line is printed when the path or the keyword it quotes
  is ASCII.
\<close>

definition stdout_any :: "log_msg \<Rightarrow> bool" where
  "stdout_any line = True"

fun error_words :: "py_error \<Rightarrow> string list" where
  "error_words (OSError path) = [path]"
| "error_words (TypeError_unexpected_keyword k) = [k]"
| "error_words _ = []"

fun line_words :: "log_msg \<Rightarrow> string list" where
  "line_words (Loaded_state_from path) = [path]"
| "line_words (Failed_to_load e) = error_words e"
| "line_words (Failed_to_save e) = error_words e"

definition stdout_ascii :: "log_msg \<Rightarrow> bool" where
  "stdout_ascii line = list_all (list_all (\<lambda>c. of_char c < (128 :: nat))) (line_words line)"

text \<open>
  A screen for the examples, laid out as \<^verbatim>\<open>ui.py\<close> does for a 480 by 320 window: the
  three icons in the bottom row, the pet above them.
\<close>

definition feed_rect :: rect where
  "feed_rect = \<lparr>rect_x = 86, rect_y = 293, rect_w = 16, rect_h = 16\<rparr>"

definition screen_pet_rect :: rect where
  "screen_pet_rect = \<lparr>rect_x = 176, rect_y = 132, rect_w = 128, rect_h = 128\<rparr>"

definition app_idle :: App where
  "app_idle =
     \<lparr>pet = PetState_default\<lparr>hunger := 50\<rparr>, pet_save_path = ''save.json'',
      dragged_emoji = None, drag_pos = None,
      emoji_rects =
        [(''feed'', feed_rect),
         (''drink'', \<lparr>rect_x = 219, rect_y = 293, rect_w = 16, rect_h = 16\<rparr>),
         (''play'', \<lparr>rect_x = 352, rect_y = 293, rect_w = 16, rect_h = 16\<rparr>)],
      pet_rect = Some screen_pet_rect, floating_hearts = []\<rparr>"

section \<open>Properties of the action handlers\<close>

text \<open>
  C1, as stated: every amount, negative ones included, leaves the stats within
  \<open>[0, 100]\<close>. The handlers clamp on one side only, so the statement fails for a
  negative amount: feeding \<open>-50\<close> at hunger \<open>80\<close> gives hunger \<open>130\<close>.
\<close>

theorem feed_negative_amount_leaves_range:
  "stats_in_range (PetState_default\<lparr>hunger := 80\<rparr>) \<and>
   hunger (feed (PetState_default\<lparr>hunger := 80\<rparr>) (- 50)) = 130 \<and>
   \<not> stats_in_range (feed (PetState_default\<lparr>hunger := 80\<rparr>) (- 50))"
  by (simp add: stats_in_range_def feed_def PetState_default_def)

text \<open>
  C1, amended: the handlers are total functions; from stats within \<open>[0, 100]\<close>, every
  amount keeps the clamped side (hunger and thirst never below 0, happiness never
  above 100), and every amount that is not negative, however large, keeps all three
  stats within \<open>[0, 100]\<close>.
\<close>

theorem actions_keep_stats_in_range:
  assumes "stats_in_range s"
  shows "(0 \<le> hunger (feed s amount) \<and> 0 \<le> thirst (drink s amount) \<and>
          happiness (play s amount) \<le> 100) \<and>
         (0 \<le> amount \<longrightarrow>
            stats_in_range (feed s amount) \<and> stats_in_range (drink s amount) \<and>
            stats_in_range (play s amount))"
  using assms by (auto simp: stats_in_range_def feed_def drink_def play_def)

theorem actions_keep_stats_in_range_witness:
  "stats_in_range (PetState_default\<lparr>hunger := 10\<rparr>) \<and> (0::real) \<le> 1000 \<and>
   hunger (feed (PetState_default\<lparr>hunger := 10\<rparr>) 1000) = 0 \<and>
   happiness (play (PetState_default\<lparr>hunger := 10\<rparr>) 1000) = 100 \<and>
   stats_in_range (feed (PetState_default\<lparr>hunger := 10\<rparr>) 1000) \<and>
   stats_in_range (drink (PetState_default\<lparr>hunger := 10\<rparr>) 1000) \<and>
   stats_in_range (play (PetState_default\<lparr>hunger := 10\<rparr>) 1000)"
proof -
  have r: "stats_in_range (PetState_default\<lparr>hunger := 10\<rparr>)"
    by (simp add: stats_in_range_def PetState_default_def)
  from actions_keep_stats_in_range [OF r, of 1000] r show ?thesis
    by (simp add: feed_def play_def PetState_default_def)
qed

section \<open>Properties of the tick\<close>

lemma tick_stages:
  "tick s m d t1 now = update_level (check_neglect (decay_stats s m d) t1) now"
  unfolding tick_def decay_stats_def check_neglect_def update_level_def Let_def
  by (rule refl)

lemma decay_stats_simps:
  "hunger (decay_stats s m d) = min 100 (hunger s + d * m)"
  "thirst (decay_stats s m d) = min 100 (thirst s + d * m)"
  "happiness (decay_stats s m d) = max 0 (happiness s - d * m)"
  "level (decay_stats s m d) = level s"
  "last_level_update (decay_stats s m d) = last_level_update s"
  "is_neglected (decay_stats s m d) = is_neglected s"
  by (simp_all add: decay_stats_def Let_def)

lemma check_neglect_simps:
  "hunger (check_neglect s t) = hunger s"
  "thirst (check_neglect s t) = thirst s"
  "happiness (check_neglect s t) = happiness s"
  "level (check_neglect s t) = level s"
  "is_neglected (check_neglect s t) \<longleftrightarrow> 100 \<le> hunger s \<and> 100 \<le> thirst s \<and> happiness s \<le> 0"
  "last_level_update (check_neglect s t) =
     (if is_neglected s \<and> \<not> (100 \<le> hunger s \<and> 100 \<le> thirst s \<and> happiness s \<le> 0)
      then t else last_level_update s)"
  by (auto simp add: check_neglect_def Let_def)

lemma update_level_simps:
  "hunger (update_level s now) = hunger s"
  "thirst (update_level s now) = thirst s"
  "happiness (update_level s now) = happiness s"
  "is_neglected (update_level s now) = is_neglected s"
  "last_level_update (update_level s now) =
     (if 86400 \<le> now - last_level_update s then now else last_level_update s)"
  "level (update_level s now) =
     (if 86400 \<le> now - last_level_update s
      then (if is_neglected s
            then max 1 (level s - py_int ((now - last_level_update s) / 86400))
            else level s + py_int ((now - last_level_update s) / 86400))
      else level s)"
  by (simp_all add: update_level_def Let_def)

lemma tick_hunger: "hunger (tick s m d t1 now) = min 100 (hunger s + d * m)"
  by (simp add: tick_stages update_level_simps check_neglect_simps decay_stats_simps)

lemma tick_thirst: "thirst (tick s m d t1 now) = min 100 (thirst s + d * m)"
  by (simp add: tick_stages update_level_simps check_neglect_simps decay_stats_simps)

lemma tick_happiness: "happiness (tick s m d t1 now) = max 0 (happiness s - d * m)"
  by (simp add: tick_stages update_level_simps check_neglect_simps decay_stats_simps)

lemma tick_is_neglected:
  "is_neglected (tick s m d t1 now) \<longleftrightarrow>
     100 \<le> hunger (tick s m d t1 now) \<and> 100 \<le> thirst (tick s m d t1 now) \<and>
     happiness (tick s m d t1 now) \<le> 0"
  unfolding tick_hunger tick_thirst tick_happiness
  by (simp only: tick_stages update_level_simps check_neglect_simps decay_stats_simps)

lemma tick_last_level_update:
  "last_level_update (tick s m d t1 now) =
     (let llu = (if is_neglected s \<and> \<not> is_neglected (tick s m d t1 now)
                 then t1 else last_level_update s)
      in if 86400 \<le> now - llu then now else llu)"
  unfolding tick_is_neglected tick_hunger tick_thirst tick_happiness Let_def
  by (simp only: tick_stages update_level_simps check_neglect_simps decay_stats_simps)

lemma tick_level:
  "level (tick s m d t1 now) =
     (let llu = (if is_neglected s \<and> \<not> is_neglected (tick s m d t1 now)
                 then t1 else last_level_update s)
      in if 86400 \<le> now - llu
         then (if is_neglected (tick s m d t1 now)
               then max 1 (level s - py_int ((now - llu) / 86400))
               else level s + py_int ((now - llu) / 86400))
         else level s)"
  unfolding tick_is_neglected tick_hunger tick_thirst tick_happiness Let_def
  by (simp only: tick_stages update_level_simps check_neglect_simps decay_stats_simps)

lemma py_int_floor: "0 \<le> x \<Longrightarrow> py_int x = \<lfloor>x\<rfloor>"
  by (simp add: py_int_def)

lemma tick_neglected_after_decay:
  "is_neglected (tick s m d t1 now) = neglected_after_decay s m d"
  by (simp add: tick_is_neglected tick_hunger tick_thirst tick_happiness
      neglected_after_decay_def)

lemma pet_fresh_simps:
  "hunger pet_fresh = 0" "thirst pet_fresh = 0" "happiness pet_fresh = 100"
  "level pet_fresh = 5" "last_level_update pet_fresh = 1000" "is_neglected pet_fresh = False"
  by (simp_all add: pet_fresh_def PetState_default_def)

lemma pet_starved_simps:
  "hunger pet_starved = 100" "thirst pet_starved = 100" "happiness pet_starved = 0"
  "level pet_starved = 1" "last_level_update pet_starved = 1000"
  "is_neglected pet_starved = True"
  by (simp_all add: pet_starved_def)

lemma pet_on_the_brink_simps:
  "hunger pet_on_the_brink = 100" "thirst pet_on_the_brink = 100"
  "happiness pet_on_the_brink = 1 / 100000" "level pet_on_the_brink = 4"
  "last_level_update pet_on_the_brink = 1000" "is_neglected pet_on_the_brink = False"
  by (simp_all add: pet_on_the_brink_def)

text \<open>
  C2, as stated: with \<open>last_level_update\<close> exactly 172800 seconds in the past and
  \<open>is_neglected\<close> false, one tick raises the level by exactly 2. The tick recomputes
  \<open>is_neglected\<close> from the decayed stats before it looks at the level, so the
  statement fails when the decay of that very tick takes the last bar to 0: a pet at
  level 4 with hunger and thirst at 100 and happiness at 0.00001, flag not set, timer
  two days back, is neglected after a tick of a hundredth of a minute and falls to
  level 2.
\<close>

theorem level_falls_when_tick_completes_neglect:
  "\<not> is_neglected pet_on_the_brink \<and>
   173800 - last_level_update pet_on_the_brink = 172800 \<and>
   level pet_on_the_brink = 4 \<and>
   is_neglected (tick pet_on_the_brink (1 / 100) STAT_DECAY_PER_MIN 173800 173800) \<and>
   level (tick pet_on_the_brink (1 / 100) STAT_DECAY_PER_MIN 173800 173800) = 2"
proof -
  have n: "neglected_after_decay pet_on_the_brink (1 / 100) STAT_DECAY_PER_MIN"
    by (simp add: neglected_after_decay_def pet_on_the_brink_simps STAT_DECAY_PER_MIN_def)
  then have t: "is_neglected (tick pet_on_the_brink (1 / 100) STAT_DECAY_PER_MIN 173800 173800)"
    by (simp only: tick_neglected_after_decay)
  have "level (tick pet_on_the_brink (1 / 100) STAT_DECAY_PER_MIN 173800 173800) = 2"
    using t by (simp add: tick_level Let_def pet_on_the_brink_simps py_int_def)
  with t show ?thesis
    by (simp add: pet_on_the_brink_simps)
qed

text \<open>
  C2, amended: in every call to tick, with \<open>last_level_update\<close> as it stands at the
  level check (the clock reading of the recovery branch when the pet, neglected before,
  is not neglected after this tick's decay; the stored value otherwise), a difference
  \<open>now - last_level_update\<close> of 86400 or more gives the whole days elapsed, computed
  once; the level becomes \<open>max 1 (level - days)\<close> when the pet is neglected after
  this tick's decay and grows by exactly \<open>days\<close> otherwise, and
  \<open>last_level_update\<close> becomes \<open>now\<close>; a smaller difference leaves the level as
  it is. In particular, with the stored
  \<open>last_level_update\<close> exactly 172800 seconds in the past, \<open>is_neglected\<close> false
  and a bar still above 0 after this tick's decay, one tick raises the level by exactly
  2; and with level 1, \<open>is_neglected\<close> true and one elapsed day, the tick leaves the
  level at 1, the two clock readings of the call being less than a day apart.
\<close>

theorem tick_level_update:
  "(let s' = tick s m d t1 now;
        negl = neglected_after_decay s m d;
        llu = (if is_neglected s \<and> \<not> negl then t1 else last_level_update s);
        days_elapsed = \<lfloor>(now - llu) / 86400\<rfloor>
    in is_neglected s' = negl \<and>
       (86400 \<le> now - llu \<longrightarrow>
          level s' = (if negl then max 1 (level s - days_elapsed)
                      else level s + days_elapsed) \<and>
          last_level_update s' = now) \<and>
       (now - llu < 86400 \<longrightarrow> level s' = level s \<and> last_level_update s' = llu) \<and>
       (\<not> is_neglected s \<and> \<not> negl \<and> now - last_level_update s = 172800 \<longrightarrow>
          level s' = level s + 2) \<and>
       (is_neglected s \<and> level s = 1 \<and> 86400 \<le> now - last_level_update s \<and>
        now - last_level_update s < 172800 \<and> now - t1 < 86400 \<longrightarrow>
          level s' = 1))"
proof -
  define s' where "s' = tick s m d t1 now"
  define negl where "negl = neglected_after_decay s m d"
  define llu where
    "llu = (if is_neglected s \<and> \<not> negl then t1 else last_level_update s)"
  define days where "days = \<lfloor>(now - llu) / 86400\<rfloor>"
  have flag: "is_neglected s' = negl"
    unfolding s'_def negl_def by (rule tick_neglected_after_decay)
  have lev: "level s' =
      (if 86400 \<le> now - llu
       then (if negl then max 1 (level s - py_int ((now - llu) / 86400))
             else level s + py_int ((now - llu) / 86400))
       else level s)"
    unfolding flag [symmetric] llu_def
    unfolding s'_def by (simp only: tick_level [of s m d t1 now] Let_def)
  have upd: "last_level_update s' = (if 86400 \<le> now - llu then now else llu)"
    unfolding flag [symmetric] llu_def
    unfolding s'_def by (simp only: tick_last_level_update [of s m d t1 now] Let_def)
  have A: "level s' = (if negl then max 1 (level s - days) else level s + days) \<and>
           last_level_update s' = now" if day: "86400 \<le> now - llu"
  proof -
    from day have "0 \<le> (now - llu) / 86400" by simp
    then have "py_int ((now - llu) / 86400) = days"
      unfolding days_def by (rule py_int_floor)
    with day lev upd show ?thesis by simp
  qed
  have A': "level s' = level s \<and> last_level_update s' = llu" if "now - llu < 86400"
    using that lev upd by simp
  have B: "level s' = level s + 2"
    if "\<not> is_neglected s" "\<not> negl" "now - last_level_update s = 172800"
  proof -
    from that(1) have l: "llu = last_level_update s" by (simp add: llu_def)
    with that(3) have "86400 \<le> now - llu" and "days = 2"
      unfolding days_def by simp_all
    with A that(2) show ?thesis by simp
  qed
  have C: "level s' = 1"
    if "is_neglected s" "level s = 1" "86400 \<le> now - last_level_update s"
      "now - last_level_update s < 172800" "now - t1 < 86400"
  proof (cases negl)
    case True
    then have l: "llu = last_level_update s" by (simp add: llu_def)
    with that(3) have "0 \<le> days" unfolding days_def by simp
    with A l that(2,3) True show ?thesis by simp
  next
    case False
    with that(1) have "llu = t1" by (simp add: llu_def)
    with that(5) have "\<not> 86400 \<le> now - llu" by simp
    with lev that(2) show ?thesis by simp
  qed
  from flag A A' B C show ?thesis
    unfolding Let_def s'_def [symmetric] negl_def [symmetric] llu_def [symmetric]
      days_def [symmetric]
    by blast
qed

theorem tick_level_update_witness:
  "\<not> is_neglected pet_fresh \<and>
   \<not> neglected_after_decay pet_fresh 1 STAT_DECAY_PER_MIN \<and>
   173800 - last_level_update pet_fresh = 172800 \<and>
   level (tick pet_fresh 1 STAT_DECAY_PER_MIN 173800 173800) = level pet_fresh + 2 \<and>
   last_level_update (tick pet_fresh 1 STAT_DECAY_PER_MIN 173800 173800) = 173800 \<and>
   is_neglected pet_starved \<and> level pet_starved = 1 \<and>
   87400 - last_level_update pet_starved = 86400 \<and>
   level (tick pet_starved 1 STAT_DECAY_PER_MIN 87400 87400) = 1 \<and>
   last_level_update (tick pet_starved 1 STAT_DECAY_PER_MIN 87400 87400) = 87400"
proof -
  have f: "\<not> neglected_after_decay pet_fresh 1 STAT_DECAY_PER_MIN"
    by (simp add: neglected_after_decay_def pet_fresh_simps STAT_DECAY_PER_MIN_def)
  have g: "neglected_after_decay pet_starved 1 STAT_DECAY_PER_MIN"
    by (simp add: neglected_after_decay_def pet_starved_simps STAT_DECAY_PER_MIN_def)
  from tick_level_update [of pet_fresh 1 STAT_DECAY_PER_MIN 173800 173800]
    tick_level_update [of pet_starved 1 STAT_DECAY_PER_MIN 87400 87400] f g
  show ?thesis
    by (simp add: Let_def pet_fresh_simps pet_starved_simps)
qed

text \<open>
  C3: after every tick \<open>is_neglected\<close> holds exactly when all three bars are at their
  worst (food and water bars at most 0, heart bar at most 0, that is hunger and thirst
  at least 100 and happiness at most 0); a bar above 0 means not neglected.
\<close>

theorem tick_neglect_iff:
  "(let s' = tick s m d t1 now
    in (is_neglected s' \<longleftrightarrow> food_bar s' \<le> 0 \<and> water_bar s' \<le> 0 \<and> heart_bar s' \<le> 0) \<and>
       (is_neglected s' \<longleftrightarrow> hunger s' \<ge> 100 \<and> thirst s' \<ge> 100 \<and> happiness s' \<le> 0) \<and>
       (food_bar s' > 0 \<or> water_bar s' > 0 \<or> heart_bar s' > 0 \<longrightarrow> \<not> is_neglected s'))"
proof -
  have "is_neglected (tick s m d t1 now) \<longleftrightarrow>
      100 \<le> hunger (tick s m d t1 now) \<and> 100 \<le> thirst (tick s m d t1 now) \<and>
      happiness (tick s m d t1 now) \<le> 0"
    by (rule tick_is_neglected)
  then show ?thesis
    unfolding Let_def food_bar_def water_bar_def heart_bar_def by auto
qed

theorem tick_neglect_iff_witness:
  "food_bar (tick pet_fresh 0 STAT_DECAY_PER_MIN 2000 2000) > 0 \<and>
   \<not> is_neglected (tick pet_fresh 0 STAT_DECAY_PER_MIN 2000 2000)"
  using tick_neglect_iff [of pet_fresh 0 STAT_DECAY_PER_MIN 2000 2000]
  by (simp add: Let_def food_bar_def tick_hunger pet_fresh_simps)

text \<open>
  C5: from stats within \<open>[0, 100]\<close>, with \<open>elapsed_minutes \<ge> 0\<close> and a decay rate that
  is not negative, the stats stay within \<open>[0, 100]\<close> after a tick: hunger and thirst
  grow by \<open>decay_rate * elapsed_minutes\<close> and are cut at 100, happiness falls by the
  same amount and is cut at 0.
\<close>

theorem tick_keeps_stats_in_range:
  assumes "stats_in_range s" and "0 \<le> m" and "0 \<le> d"
  shows "stats_in_range (tick s m d t1 now) \<and>
         hunger (tick s m d t1 now) = min 100 (hunger s + d * m) \<and>
         thirst (tick s m d t1 now) = min 100 (thirst s + d * m) \<and>
         happiness (tick s m d t1 now) = max 0 (happiness s - d * m)"
proof -
  from assms(2,3) have delta: "0 \<le> d * m" by simp
  from assms(1) have r: "0 \<le> hunger s" "0 \<le> thirst s" "happiness s \<le> 100"
    by (simp_all add: stats_in_range_def)
  have "0 \<le> min 100 (hunger s + d * m)" using r(1) delta by simp
  moreover have "0 \<le> min 100 (thirst s + d * m)" using r(2) delta by simp
  moreover have "max 0 (happiness s - d * m) \<le> 100" using r(3) delta by simp
  ultimately show ?thesis
    by (simp add: stats_in_range_def tick_hunger tick_thirst tick_happiness)
qed

theorem tick_keeps_stats_in_range_witness:
  "stats_in_range pet_fresh \<and> (0::real) \<le> 9000 \<and> 0 \<le> STAT_DECAY_PER_MIN \<and>
   stats_in_range (tick pet_fresh 9000 STAT_DECAY_PER_MIN 2000 2000) \<and>
   hunger (tick pet_fresh 9000 STAT_DECAY_PER_MIN 2000 2000) = 100 \<and>
   happiness (tick pet_fresh 9000 STAT_DECAY_PER_MIN 2000 2000) = 0"
proof -
  have r: "stats_in_range pet_fresh"
    by (simp add: stats_in_range_def pet_fresh_simps)
  have d: "0 \<le> STAT_DECAY_PER_MIN"
    by (simp add: STAT_DECAY_PER_MIN_def)
  have m: "(0::real) \<le> 9000" by simp
  from tick_keeps_stats_in_range [OF r m d, of 2000 2000] r d show ?thesis
    by (simp add: pet_fresh_simps STAT_DECAY_PER_MIN_def)
qed

section \<open>Properties of the mood\<close>

lemma min3_tie_break:
  fixes f w h :: real
  shows "(let min_stat = min f (min w h)
          in if min_stat = f then hungry else if min_stat = w then thirsty else sad) =
         (if f \<le> w \<and> f \<le> h then hungry else if w \<le> h then thirsty else sad)"
  by (auto simp: min_def Let_def)

text \<open>
  C6: \<open>mood\<close> is the function the specification describes: happy when all three bars
  are above 70, else the first bar below 30 in the order food, water, heart, else the
  lowest bar with ties going to food, then water, then heart. Bars 71, 71, 71 give
  happy; bars 70, 71, 71 give hungry.
\<close>

theorem mood_refines_spec:
  "mood s = mood_spec s \<and>
   (food_bar s = 71 \<and> water_bar s = 71 \<and> heart_bar s = 71 \<longrightarrow> mood s = happy) \<and>
   (food_bar s = 70 \<and> water_bar s = 71 \<and> heart_bar s = 71 \<longrightarrow> mood s = hungry)"
proof -
  have eq: "mood s = mood_spec s"
    unfolding mood_def mood_spec_def
    by (simp only: min3_tie_break)
  have "mood_spec s = happy" if "food_bar s = 71" "water_bar s = 71" "heart_bar s = 71"
    using that by (simp add: mood_spec_def)
  moreover have "mood_spec s = hungry" if "food_bar s = 70" "water_bar s = 71" "heart_bar s = 71"
    using that by (simp add: mood_spec_def)
  ultimately show ?thesis using eq by simp
qed

theorem mood_refines_spec_witness:
  "food_bar (PetState_default\<lparr>hunger := 29, thirst := 29, happiness := 71\<rparr>) = 71 \<and>
   water_bar (PetState_default\<lparr>hunger := 29, thirst := 29, happiness := 71\<rparr>) = 71 \<and>
   heart_bar (PetState_default\<lparr>hunger := 29, thirst := 29, happiness := 71\<rparr>) = 71 \<and>
   mood (PetState_default\<lparr>hunger := 29, thirst := 29, happiness := 71\<rparr>) = happy \<and>
   food_bar (PetState_default\<lparr>hunger := 30, thirst := 29, happiness := 71\<rparr>) = 70 \<and>
   water_bar (PetState_default\<lparr>hunger := 30, thirst := 29, happiness := 71\<rparr>) = 71 \<and>
   heart_bar (PetState_default\<lparr>hunger := 30, thirst := 29, happiness := 71\<rparr>) = 71 \<and>
   mood (PetState_default\<lparr>hunger := 30, thirst := 29, happiness := 71\<rparr>) = hungry"
proof -
  let ?a = "PetState_default\<lparr>hunger := 29, thirst := 29, happiness := 71\<rparr>"
  let ?b = "PetState_default\<lparr>hunger := 30, thirst := 29, happiness := 71\<rparr>"
  have a: "food_bar ?a = 71 \<and> water_bar ?a = 71 \<and> heart_bar ?a = 71"
    by (simp add: food_bar_def water_bar_def heart_bar_def PetState_default_def)
  have b: "food_bar ?b = 70 \<and> water_bar ?b = 71 \<and> heart_bar ?b = 71"
    by (simp add: food_bar_def water_bar_def heart_bar_def PetState_default_def)
  from mood_refines_spec [of ?a] a have "mood ?a = happy" by blast
  moreover from mood_refines_spec [of ?b] b have "mood ?b = hungry" by blast
  ultimately show ?thesis using a b by blast
qed

section \<open>Recovery from neglect\<close>

lemma action_is_neglected:
  "is_neglected (feed s a) = is_neglected s"
  "is_neglected (drink s a) = is_neglected s"
  "is_neglected (play s a) = is_neglected s"
  by (simp_all add: feed_def drink_def play_def)

text \<open>
  C4, as stated: after an action has raised a bar above 0, the next tick clears
  \<open>is_neglected\<close>. The tick decays the stats before it looks at the bars, so the
  statement fails when the decay of that tick takes the bar back to 0: playing for 25
  and then ticking 1500 minutes at the configured rate leaves the pet neglected and
  the timer untouched.
\<close>

theorem recovery_needs_bar_after_decay:
  "is_neglected pet_starved \<and>
   heart_bar (play pet_starved PLAY_AMOUNT) > 0 \<and>
   is_neglected (tick (play pet_starved PLAY_AMOUNT) 1500 STAT_DECAY_PER_MIN 2000 2000) \<and>
   last_level_update (tick (play pet_starved PLAY_AMOUNT) 1500 STAT_DECAY_PER_MIN 2000 2000) = 1000"
proof -
  have p: "hunger (play pet_starved PLAY_AMOUNT) = 100"
    "thirst (play pet_starved PLAY_AMOUNT) = 100"
    "happiness (play pet_starved PLAY_AMOUNT) = 25"
    "is_neglected (play pet_starved PLAY_AMOUNT) = True"
    "last_level_update (play pet_starved PLAY_AMOUNT) = 1000"
    by (simp_all add: play_def PLAY_AMOUNT_def pet_starved_def)
  have n: "is_neglected (tick (play pet_starved PLAY_AMOUNT) 1500 STAT_DECAY_PER_MIN 2000 2000)"
    by (simp add: tick_is_neglected tick_hunger tick_thirst tick_happiness p
        STAT_DECAY_PER_MIN_def)
  have "last_level_update (tick (play pet_starved PLAY_AMOUNT) 1500 STAT_DECAY_PER_MIN 2000 2000)
      = 1000"
    using n by (simp add: tick_last_level_update Let_def p)
  with n show ?thesis
    by (simp add: heart_bar_def p pet_starved_simps)
qed

text \<open>
  C4, amended: if \<open>is_neglected\<close> is set, an action is applied, and some bar is still
  above 0 after the next tick's own decay, then that tick clears \<open>is_neglected\<close> and
  sets \<open>last_level_update\<close> to a clock reading of that call: the reading of the
  recovery branch, or the later reading of the level check should a whole day lie
  between the two. Any tick that takes the pet from neglected to not neglected meets
  the hypotheses.
\<close>

theorem recovery_resets_timer:
  assumes "is_neglected s"
    and "s1 = feed s a \<or> s1 = drink s a \<or> s1 = play s a"
    and "food_bar (tick s1 m d t1 now) > 0 \<or> water_bar (tick s1 m d t1 now) > 0 \<or>
         heart_bar (tick s1 m d t1 now) > 0"
  shows "\<not> is_neglected (tick s1 m d t1 now) \<and>
         last_level_update (tick s1 m d t1 now) = (if 86400 \<le> now - t1 then now else t1)"
proof -
  from assms(1,2) have was: "is_neglected s1"
    by (auto simp: action_is_neglected)
  from assms(3) have rec: "\<not> is_neglected (tick s1 m d t1 now)"
    unfolding food_bar_def water_bar_def heart_bar_def
    by (subst tick_is_neglected) auto
  from was rec show ?thesis
    by (simp add: tick_last_level_update Let_def)
qed

theorem recovery_resets_timer_witness:
  "is_neglected pet_starved \<and>
   heart_bar (tick (play pet_starved PLAY_AMOUNT) 6 STAT_DECAY_PER_MIN 2000 2000) > 0 \<and>
   \<not> is_neglected (tick (play pet_starved PLAY_AMOUNT) 6 STAT_DECAY_PER_MIN 2000 2000) \<and>
   last_level_update (tick (play pet_starved PLAY_AMOUNT) 6 STAT_DECAY_PER_MIN 2000 2000) = 2000"
proof -
  have n: "is_neglected pet_starved" by (simp add: pet_starved_simps)
  have h: "heart_bar (tick (play pet_starved PLAY_AMOUNT) 6 STAT_DECAY_PER_MIN 2000 2000) > 0"
    by (simp add: heart_bar_def tick_happiness play_def PLAY_AMOUNT_def pet_starved_def
        STAT_DECAY_PER_MIN_def)
  from recovery_resets_timer [OF n, of "play pet_starved PLAY_AMOUNT" PLAY_AMOUNT
      6 STAT_DECAY_PER_MIN 2000 2000] n h
  show ?thesis by simp
qed

section \<open>Properties of persistence\<close>

lemma PetState_init_asdict: "PetState_init (asdict st) = Inr st"
  by (simp add: asdict_def field_names_def kwarg_def)

lemma load_parsed:
  assumes "files fs p = Some (Parsed data)" and "PetState_init data = Inr st"
  shows "load out fs p cur =
           (if out (Loaded_state_from p) then Inr (st, [Loaded_state_from p])
            else if out (Failed_to_load UnicodeEncodeError)
            then Inr (st, [Failed_to_load UnicodeEncodeError])
            else Inl UnicodeEncodeError)"
  using assms by (simp add: load_def load_try_def)

lemma load_rejected:
  assumes "files fs p = Some (Parsed data)" and "PetState_init data = Inl e"
  shows "load out fs p cur =
           (if out (Failed_to_load e) then Inr (cur, [Failed_to_load e])
            else Inl UnicodeEncodeError)"
  using assms by (simp add: load_def load_try_def)

lemma load_unread:
  assumes "files fs p = Some f" and "read_json p f = Inl e"
  shows "load out fs p cur =
           (if out (Failed_to_load e) then Inr (cur, [Failed_to_load e])
            else Inl UnicodeEncodeError)"
  using assms by (simp add: load_def load_try_def)

lemma load_missing: "files fs p = None \<Longrightarrow> load out fs p cur = Inr (cur, [])"
  by (simp add: load_def)

lemma save_then_load_eq:
  assumes "writable fs p"
  shows "save_then_load out fs p st cur =
           (if out (Loaded_state_from p) then Inr (st, [Loaded_state_from p])
            else if out (Failed_to_load UnicodeEncodeError)
            then Inr (st, [Failed_to_load UnicodeEncodeError])
            else Inl UnicodeEncodeError)"
proof -
  let ?fs = "fs\<lparr>files := (files fs)(p \<mapsto> Parsed (asdict st))\<rparr>"
  have s: "save out fs p st = Inr (?fs, [])" using assms by (simp add: save_def)
  have f: "files ?fs p = Some (Parsed (asdict st))" by simp
  show ?thesis
    unfolding save_then_load_def s
    by (simp only: sum.case prod.case load_parsed [OF f PetState_init_asdict])
qed

text \<open>
  C8: saving a state and loading the file that was written gives the state back,
  field for field: hunger, thirst, happiness, level, last_level_update and
  is_neglected are the values saved. (The save has to succeed: the path is writable.
  With a standard output that prints the line of \<open>load\<close> the result is the state
  and that line; whenever \<open>load\<close> returns at all, it returns the state saved.)
\<close>

theorem save_load_roundtrip:
  assumes "writable fs p"
  shows "(out (Loaded_state_from p) \<longrightarrow>
            save_then_load out fs p st cur = Inr (st, [Loaded_state_from p])) \<and>
         (\<forall>st' ls. save_then_load out fs p st cur = Inr (st', ls) \<longrightarrow> st' = st) \<and>
         (\<forall>st' ls. save_then_load out fs p (obj_of s) cur = Inr (st', ls) \<longrightarrow>
            obj_hunger st' = PFloat (hunger s) \<and> obj_thirst st' = PFloat (thirst s) \<and>
            obj_happiness st' = PFloat (happiness s) \<and> obj_level st' = PInt (level s) \<and>
            obj_last_level_update st' = PFloat (last_level_update s) \<and>
            obj_is_neglected st' = PBool (is_neglected s) \<and> st' = obj_of s)"
proof -
  have a: "save_then_load out fs p st cur = Inr (st, [Loaded_state_from p])"
    if "out (Loaded_state_from p)" for st
    using that by (simp add: save_then_load_eq [OF assms])
  have b: "st' = st" if "save_then_load out fs p st cur = Inr (st', ls)" for st st' ls
    using that by (simp add: save_then_load_eq [OF assms] split: if_splits)
  have c: "obj_hunger (obj_of s) = PFloat (hunger s) \<and> obj_thirst (obj_of s) = PFloat (thirst s) \<and>
      obj_happiness (obj_of s) = PFloat (happiness s) \<and> obj_level (obj_of s) = PInt (level s) \<and>
      obj_last_level_update (obj_of s) = PFloat (last_level_update s) \<and>
      obj_is_neglected (obj_of s) = PBool (is_neglected s)"
    by (simp add: obj_of_def)
  from a b c show ?thesis by metis
qed

theorem save_load_roundtrip_witness:
  "writable fs_empty ''save.json'' \<and> stdout_any (Loaded_state_from ''save.json'') \<and>
   save_then_load stdout_any fs_empty ''save.json'' (obj_of pet_starved) PetObj_default
     = Inr (obj_of pet_starved, [Loaded_state_from ''save.json'']) \<and>
   obj_hunger (obj_of pet_starved) = PFloat 100 \<and> obj_level (obj_of pet_starved) = PInt 1"
proof -
  have w: "writable fs_empty ''save.json''" by (simp add: fs_empty_def)
  have o: "stdout_any (Loaded_state_from ''save.json'')" by (simp add: stdout_any_def)
  from save_load_roundtrip [OF w, where out = stdout_any and st = "obj_of pet_starved"
      and cur = PetObj_default and s = pet_starved] w o
  show ?thesis by (simp add: pet_starved_simps)
qed

lemma find_first_filtered:
  "find P xs = (case filter P xs of [] \<Rightarrow> None | x # ys \<Rightarrow> Some x)"
  by (induction xs) auto

lemma PetState_init_fails:
  "\<not> has_only_fields data \<Longrightarrow> PetState_init data = Inl (rejection data)"
proof (cases data)
  case (PDict kvs)
  assume "\<not> has_only_fields data"
  with PDict have "filter (\<lambda>k. k \<notin> set field_names) (map fst kvs) \<noteq> []"
    by (auto simp: has_only_fields_def list_all_iff filter_empty_conv)
  then obtain k ks where "filter (\<lambda>k. k \<notin> set field_names) (map fst kvs) = k # ks"
    by (cases "filter (\<lambda>k. k \<notin> set field_names) (map fst kvs)") auto
  with PDict show ?thesis
    by (simp add: rejection_def find_first_filtered)
qed (simp_all add: rejection_def)

lemma PetState_init_succeeds:
  "has_only_fields (PDict kvs) \<Longrightarrow>
     PetState_init (PDict kvs) =
       Inr \<lparr>obj_hunger = kwarg kvs ''hunger'' (PFloat 0),
            obj_thirst = kwarg kvs ''thirst'' (PFloat 0),
            obj_happiness = kwarg kvs ''happiness'' (PFloat 100),
            obj_level = kwarg kvs ''level'' (PInt 1),
            obj_last_level_update = kwarg kvs ''last_level_update'' (PFloat 0),
            obj_is_neglected = kwarg kvs ''is_neglected'' (PBool False)\<rparr>"
  by (auto simp: has_only_fields_def list_all_iff find_None_iff split: option.splits)

lemma fs_corrupt_files:
  "files fs_corrupt ''save.json'' = None"
  "files fs_corrupt ''bad.json'' = Some Malformed"
  "files fs_corrupt ''old.json''
     = Some (Parsed (PDict [(''hunger'', PFloat 5), (''energy'', PInt 3)]))"
  "files fs_corrupt ''typed.json'' = Some (Parsed (PDict [(''hunger'', PStr ''abc'')]))"
  "files fs_corrupt ''odd.json''
     = Some (Parsed (PDict [([CHR 0xED, CHR 0xA0, CHR 0x80], PInt 1)]))"
  by (simp_all add: fs_corrupt_def)

text \<open>
  C9, as stated: a file whose fields do not match PetState leaves the default state
  with the error reported, and loading never raises. The dataclass does not check the
  values it is given, so a save file with a string for the hunger is loaded as it is,
  with no error, and the state is not the default state. And the \<^verbatim>\<open>except\<close> branch
  prints the error, which names an unknown key: when standard output cannot encode the
  key, that \<^verbatim>\<open>print\<close> raises and the exception leaves \<open>load\<close>.
\<close>

theorem load_keeps_ill_typed_file:
  "files fs_corrupt ''typed.json'' = Some (Parsed (PDict [(''hunger'', PStr ''abc'')])) \<and>
   load stdout_any fs_corrupt ''typed.json'' PetObj_default
     = Inr (PetObj_default\<lparr>obj_hunger := PStr ''abc''\<rparr>,
            [Loaded_state_from ''typed.json'']) \<and>
   PetObj_default\<lparr>obj_hunger := PStr ''abc''\<rparr> \<noteq> PetObj_default \<and>
   files fs_corrupt ''odd.json''
     = Some (Parsed (PDict [([CHR 0xED, CHR 0xA0, CHR 0x80], PInt 1)])) \<and>
   load stdout_ascii fs_corrupt ''odd.json'' PetObj_default = Inl UnicodeEncodeError"
proof -
  have i: "PetState_init (PDict [(''hunger'', PStr ''abc'')])
      = Inr (PetObj_default\<lparr>obj_hunger := PStr ''abc''\<rparr>)"
    by (simp add: field_names_def kwarg_def PetObj_default_def)
  have a: "load stdout_any fs_corrupt ''typed.json'' PetObj_default
      = Inr (PetObj_default\<lparr>obj_hunger := PStr ''abc''\<rparr>, [Loaded_state_from ''typed.json''])"
    by (simp add: load_parsed [OF fs_corrupt_files(4) i] stdout_any_def)
  have j: "PetState_init (PDict [([CHR 0xED, CHR 0xA0, CHR 0x80], PInt 1)])
      = Inl (TypeError_unexpected_keyword [CHR 0xED, CHR 0xA0, CHR 0x80])"
    by (simp add: field_names_def)
  have b: "load stdout_ascii fs_corrupt ''odd.json'' PetObj_default = Inl UnicodeEncodeError"
    by (simp add: load_rejected [OF fs_corrupt_files(5) j] stdout_ascii_def)
  have c: "PetObj_default\<lparr>obj_hunger := PStr ''abc''\<rparr> \<noteq> PetObj_default"
    by (simp add: PetObj_default_def)
  from a b c fs_corrupt_files(4,5) show ?thesis by simp
qed

lemma Pet_init_of_load:
  "load out fs p PetObj_default = Inr (st, ls) \<Longrightarrow>
     Pet_init out fs p t0 t1 =
       Inr (\<lparr>save_path = p,
              state = (if eq_zero (obj_last_level_update st)
                       then st\<lparr>obj_last_level_update := PFloat t1\<rparr> else st),
              last_update = t0\<rparr>, ls)"
  by (simp add: Pet_init_def Let_def)

lemma Pet_init_returns:
  "Pet_init out fs p t0 t1 = Inr (pt, ls) \<Longrightarrow>
     \<exists>st. load out fs p PetObj_default = Inr (st, ls) \<and>
          state pt = (if eq_zero (obj_last_level_update st)
                       then st\<lparr>obj_last_level_update := PFloat t1\<rparr> else st)"
  by (auto simp: Pet_init_def Let_def split: sum.splits)

text \<open>
  C9, amended: from the default state, a missing file leaves the default state and
  prints nothing; a file that cannot be read, that does not parse, or whose data is
  not a dictionary or has a key that is not a PetState field leaves the default state
  and, when the line that reports the error can be printed, reports it and returns to
  the caller; the constructor then only stamps \<open>last_level_update\<close>. A dictionary
  whose keys are all PetState fields is loaded as it is: its values are stored
  unchecked and a missing field takes its default.
\<close>

theorem load_falls_back_to_default:
  "(files fs p = None \<longrightarrow> load out fs p PetObj_default = Inr (PetObj_default, [])) \<and>
   (files fs p = Some Unreadable \<and> out (Failed_to_load (OSError p)) \<longrightarrow>
      load out fs p PetObj_default = Inr (PetObj_default, [Failed_to_load (OSError p)])) \<and>
   (files fs p = Some Malformed \<and> out (Failed_to_load JSONDecodeError) \<longrightarrow>
      load out fs p PetObj_default = Inr (PetObj_default, [Failed_to_load JSONDecodeError])) \<and>
   (files fs p = Some (Parsed data) \<and> \<not> has_only_fields data \<longrightarrow>
      (\<exists>e. PetState_init data = Inl e \<and> e = rejection data \<and>
           (out (Failed_to_load e) \<longrightarrow>
              load out fs p PetObj_default = Inr (PetObj_default, [Failed_to_load e])))) \<and>
   (files fs p = Some (Parsed (PDict kvs)) \<and> has_only_fields (PDict kvs) \<and>
    out (Loaded_state_from p) \<longrightarrow>
      load out fs p PetObj_default =
        Inr (\<lparr>obj_hunger = kwarg kvs ''hunger'' (PFloat 0),
               obj_thirst = kwarg kvs ''thirst'' (PFloat 0),
               obj_happiness = kwarg kvs ''happiness'' (PFloat 100),
               obj_level = kwarg kvs ''level'' (PInt 1),
               obj_last_level_update = kwarg kvs ''last_level_update'' (PFloat 0),
               obj_is_neglected = kwarg kvs ''is_neglected'' (PBool False)\<rparr>,
             [Loaded_state_from p])) \<and>
   (load out fs p PetObj_default = Inr (PetObj_default, ls) \<longrightarrow>
      Pet_init out fs p t0 t1 =
        Inr (\<lparr>save_path = p, state = PetObj_default\<lparr>obj_last_level_update := PFloat t1\<rparr>,
               last_update = t0\<rparr>, ls))"
proof -
  have a: "load out fs p PetObj_default = Inr (PetObj_default, [])" if "files fs p = None"
    using that by (rule load_missing)
  have b: "load out fs p PetObj_default = Inr (PetObj_default, [Failed_to_load (OSError p)])"
    if "files fs p = Some Unreadable" "out (Failed_to_load (OSError p))"
    using that by (simp add: load_unread [where e = "OSError p"])
  have c: "load out fs p PetObj_default = Inr (PetObj_default, [Failed_to_load JSONDecodeError])"
    if "files fs p = Some Malformed" "out (Failed_to_load JSONDecodeError)"
    using that by (simp add: load_unread [where e = JSONDecodeError])
  have d: "\<exists>e. PetState_init data = Inl e \<and> e = rejection data \<and>
      (out (Failed_to_load e) \<longrightarrow>
         load out fs p PetObj_default = Inr (PetObj_default, [Failed_to_load e]))"
    if "files fs p = Some (Parsed data)" "\<not> has_only_fields data"
  proof -
    from PetState_init_fails [OF that(2)]
    have e: "PetState_init data = Inl (rejection data)" .
    then show ?thesis by (simp add: load_rejected [OF that(1) e])
  qed
  have f: "load out fs p PetObj_default =
        Inr (\<lparr>obj_hunger = kwarg kvs ''hunger'' (PFloat 0),
               obj_thirst = kwarg kvs ''thirst'' (PFloat 0),
               obj_happiness = kwarg kvs ''happiness'' (PFloat 100),
               obj_level = kwarg kvs ''level'' (PInt 1),
               obj_last_level_update = kwarg kvs ''last_level_update'' (PFloat 0),
               obj_is_neglected = kwarg kvs ''is_neglected'' (PBool False)\<rparr>,
             [Loaded_state_from p])"
    if "files fs p = Some (Parsed (PDict kvs))" "has_only_fields (PDict kvs)"
      "out (Loaded_state_from p)"
    using that(3) by (simp add: load_parsed [OF that(1) PetState_init_succeeds [OF that(2)]])
  have g: "Pet_init out fs p t0 t1 =
        Inr (\<lparr>save_path = p, state = PetObj_default\<lparr>obj_last_level_update := PFloat t1\<rparr>,
               last_update = t0\<rparr>, ls)"
    if "load out fs p PetObj_default = Inr (PetObj_default, ls)"
    by (simp add: Pet_init_of_load [OF that] PetObj_default_def)
  from a b c d f g show ?thesis by blast
qed

theorem load_falls_back_to_default_witness:
  "files fs_corrupt ''save.json'' = None \<and>
   load stdout_ascii fs_corrupt ''save.json'' PetObj_default = Inr (PetObj_default, []) \<and>
   files fs_corrupt ''bad.json'' = Some Malformed \<and>
   stdout_ascii (Failed_to_load JSONDecodeError) \<and>
   load stdout_ascii fs_corrupt ''bad.json'' PetObj_default
     = Inr (PetObj_default, [Failed_to_load JSONDecodeError]) \<and>
   Pet_init stdout_ascii fs_corrupt ''bad.json'' 10 11
     = Inr (\<lparr>save_path = ''bad.json'',
              state = PetObj_default\<lparr>obj_last_level_update := PFloat 11\<rparr>,
              last_update = 10\<rparr>, [Failed_to_load JSONDecodeError]) \<and>
   files fs_corrupt ''old.json''
     = Some (Parsed (PDict [(''hunger'', PFloat 5), (''energy'', PInt 3)])) \<and>
   \<not> has_only_fields (PDict [(''hunger'', PFloat 5), (''energy'', PInt 3)]) \<and>
   stdout_ascii (Failed_to_load (TypeError_unexpected_keyword ''energy'')) \<and>
   load stdout_ascii fs_corrupt ''old.json'' PetObj_default
     = Inr (PetObj_default, [Failed_to_load (TypeError_unexpected_keyword ''energy'')])"
proof -
  let ?d = "PDict [(''hunger'', PFloat 5), (''energy'', PInt 3)]"
  have o: "stdout_ascii (Failed_to_load JSONDecodeError)"
    "stdout_ascii (Failed_to_load (TypeError_unexpected_keyword ''energy''))"
    by (simp_all add: stdout_ascii_def)
  have n: "\<not> has_only_fields ?d" "rejection ?d = TypeError_unexpected_keyword ''energy''"
    by (simp_all add: has_only_fields_def rejection_def field_names_def)
  from load_falls_back_to_default [where fs = fs_corrupt and p = "''save.json''"
      and out = stdout_ascii]
  have a: "load stdout_ascii fs_corrupt ''save.json'' PetObj_default = Inr (PetObj_default, [])"
    using fs_corrupt_files(1) by blast
  from load_falls_back_to_default [where fs = fs_corrupt and p = "''bad.json''"
      and out = stdout_ascii and ?t0.0 = 10 and ?t1.0 = 11
      and ls = "[Failed_to_load JSONDecodeError]"]
  have b: "load stdout_ascii fs_corrupt ''bad.json'' PetObj_default
        = Inr (PetObj_default, [Failed_to_load JSONDecodeError])"
    and c: "Pet_init stdout_ascii fs_corrupt ''bad.json'' 10 11
        = Inr (\<lparr>save_path = ''bad.json'',
                 state = PetObj_default\<lparr>obj_last_level_update := PFloat 11\<rparr>,
                 last_update = 10\<rparr>, [Failed_to_load JSONDecodeError])"
    using fs_corrupt_files(2) o(1) by blast+
  from load_falls_back_to_default [where fs = fs_corrupt and p = "''old.json''"
      and out = stdout_ascii and data = ?d]
  have d: "load stdout_ascii fs_corrupt ''old.json'' PetObj_default
        = Inr (PetObj_default, [Failed_to_load (TypeError_unexpected_keyword ''energy'')])"
    using fs_corrupt_files(3) n o(2) by auto
  from a b c d o n(1) fs_corrupt_files(1,2,3) show ?thesis by blast
qed

text \<open>
  C10: after construction \<open>last_level_update\<close> does not equal \<open>0.0\<close> (the clock does
  not read 0): when the loaded state, or the default state if nothing was loaded, has
  \<open>last_level_update\<close> equal to \<open>0.0\<close>, the constructor replaces it by the clock
  reading, and leaves the state alone otherwise. After a fresh start the first tick
  within a day of the construction leaves the level at 1.
\<close>

theorem init_sets_last_level_update:
  assumes "t1 \<noteq> 0"
  shows "(\<forall>pt ls. Pet_init out fs p t0 t1 = Inr (pt, ls) \<longrightarrow>
            \<not> eq_zero (obj_last_level_update (state pt))) \<and>
         (\<forall>st ls. load out fs p PetObj_default = Inr (st, ls) \<longrightarrow>
            Pet_init out fs p t0 t1 =
              Inr (\<lparr>save_path = p,
                     state = (if eq_zero (obj_last_level_update st)
                              then st\<lparr>obj_last_level_update := PFloat t1\<rparr> else st),
                     last_update = t0\<rparr>, ls)) \<and>
         (files fs p = None \<longrightarrow>
            Pet_init out fs p t0 t1 =
              Inr (\<lparr>save_path = p,
                     state = obj_of (PetState_default\<lparr>last_level_update := t1\<rparr>),
                     last_update = t0\<rparr>, [])) \<and>
         (now - t1 < 86400 \<longrightarrow>
            level (tick (PetState_default\<lparr>last_level_update := t1\<rparr>) m d t2 now) = 1 \<and>
            last_level_update (tick (PetState_default\<lparr>last_level_update := t1\<rparr>) m d t2 now)
              = t1)"
proof -
  let ?fresh = "PetState_default\<lparr>last_level_update := t1\<rparr>"
  have a: "\<not> eq_zero (obj_last_level_update (state pt))"
    if "Pet_init out fs p t0 t1 = Inr (pt, ls)" for pt ls
  proof -
    from Pet_init_returns [OF that] obtain st where
      "state pt = (if eq_zero (obj_last_level_update st)
                   then st\<lparr>obj_last_level_update := PFloat t1\<rparr> else st)"
      by blast
    with assms show ?thesis by simp
  qed
  have b: "Pet_init out fs p t0 t1 =
      Inr (\<lparr>save_path = p,
             state = (if eq_zero (obj_last_level_update st)
                      then st\<lparr>obj_last_level_update := PFloat t1\<rparr> else st),
             last_update = t0\<rparr>, ls)"
    if "load out fs p PetObj_default = Inr (st, ls)" for st ls
    using that by (rule Pet_init_of_load)
  have c: "Pet_init out fs p t0 t1 =
      Inr (\<lparr>save_path = p, state = obj_of ?fresh, last_update = t0\<rparr>, [])"
    if "files fs p = None"
    by (simp add: Pet_init_of_load [OF load_missing [OF that]] PetObj_default_def obj_of_def
        PetState_default_def)
  have f: "is_neglected ?fresh = False" "level ?fresh = 1" "last_level_update ?fresh = t1"
    by (simp_all add: PetState_default_def)
  have e: "level (tick ?fresh m d t2 now) = 1 \<and> last_level_update (tick ?fresh m d t2 now) = t1"
    if "now - t1 < 86400"
    using that by (simp add: tick_level tick_last_level_update Let_def f)
  from a b c e show ?thesis by blast
qed

theorem init_sets_last_level_update_witness:
  "(11::real) \<noteq> 0 \<and> files fs_empty ''save.json'' = None \<and>
   Pet_init stdout_any fs_empty ''save.json'' 10 11
     = Inr (\<lparr>save_path = ''save.json'',
              state = obj_of (PetState_default\<lparr>last_level_update := 11\<rparr>),
              last_update = 10\<rparr>, []) \<and>
   \<not> eq_zero (obj_last_level_update (obj_of (PetState_default\<lparr>last_level_update := 11\<rparr>))) \<and>
   level (tick (PetState_default\<lparr>last_level_update := 11\<rparr>) 1 STAT_DECAY_PER_MIN 12 12) = 1"
proof -
  have n: "(11::real) \<noteq> 0" by simp
  have f: "files fs_empty ''save.json'' = None" by (simp add: fs_empty_def)
  note t = init_sets_last_level_update [OF n, where out = stdout_any and fs = fs_empty
      and p = "''save.json''" and ?t0.0 = 10 and now = 12 and m = 1
      and d = STAT_DECAY_PER_MIN and ?t2.0 = 12]
  from t f have i: "Pet_init stdout_any fs_empty ''save.json'' 10 11
     = Inr (\<lparr>save_path = ''save.json'',
              state = obj_of (PetState_default\<lparr>last_level_update := 11\<rparr>),
              last_update = 10\<rparr>, [])"
    by blast
  from t i have z:
    "\<not> eq_zero (obj_last_level_update (obj_of (PetState_default\<lparr>last_level_update := 11\<rparr>)))"
    by fastforce
  from t have l:
    "level (tick (PetState_default\<lparr>last_level_update := 11\<rparr>) 1 STAT_DECAY_PER_MIN 12 12) = 1"
    by simp
  from n f i z l show ?thesis by blast
qed

section \<open>Properties of the interaction\<close>

lemma collidepoint_rect_bool: "collidepoint r pos \<Longrightarrow> rect_bool r"
  by (auto simp: collidepoint_def rect_bool_def)

lemma str_bool_feed: "str_bool (Some ''feed'')"
  by (simp add: str_bool_def)

lemma drop_feed:
  assumes "dragged_emoji a = Some ''feed''" and "pet_rect a = Some r" and "rect_bool r"
  shows "drop_action a =
           a\<lparr>pet := feed (pet a) FEED_AMOUNT,
             floating_hearts := floating_hearts a @ map (new_heart r) [0, 1, 2]\<rparr>"
  using assms by (simp add: drop_action_def spawn_floating_hearts_def)

lemma mouse_up_dragging_feed:
  assumes "pet_rect a = Some r"
  shows "mouse_up (a\<lparr>dragged_emoji := Some ''feed'', drag_pos := Some q\<rparr>) u =
           (if collidepoint r q
            then a\<lparr>pet := feed (pet a) FEED_AMOUNT,
                   floating_hearts := floating_hearts a @ map (new_heart r) [0, 1, 2],
                   dragged_emoji := None, drag_pos := None\<rparr>
            else a\<lparr>dragged_emoji := None, drag_pos := None\<rparr>)"
proof -
  let ?a2 = "a\<lparr>dragged_emoji := Some ''feed'', drag_pos := Some q\<rparr>"
  have f: "dragged_emoji ?a2 = Some ''feed''" "pet_rect ?a2 = Some r" "drag_pos ?a2 = Some q"
    using assms by simp_all
  show ?thesis
  proof (cases "collidepoint r q")
    case True
    then have "rect_bool r" by (rule collidepoint_rect_bool)
    with True show ?thesis
      by (simp add: mouse_up_def Let_def f str_bool_feed drop_feed [OF f(1,2)])
  next
    case False
    then show ?thesis
      by (simp add: mouse_up_def Let_def f str_bool_feed)
  qed
qed

lemma handle_events_moves:
  "handle_events out fs (a\<lparr>dragged_emoji := Some ''feed'', drag_pos := Some p\<rparr>)
     (map (\<lambda>(q, t). (MOUSEMOTION q, t)) qs @ rest)
   = handle_events out fs
       (a\<lparr>dragged_emoji := Some ''feed'', drag_pos := Some (last (p # map fst qs))\<rparr>) rest"
proof (induction qs arbitrary: p)
  case Nil
  show ?case by simp
next
  case (Cons qt qs)
  obtain q t where qt: "qt = (q, t)" by (cases qt)
  have m: "mouse_motion (a\<lparr>dragged_emoji := Some ''feed'', drag_pos := Some p\<rparr>) q
      = a\<lparr>dragged_emoji := Some ''feed'', drag_pos := Some q\<rparr>"
    by (simp add: mouse_motion_def str_bool_feed)
  show ?case
    using Cons.IH [of q] by (simp add: qt handle_event_def m)
qed

lemma handle_events_down:
  assumes "first_hit (emoji_rects a) p = Some ''feed''"
  shows "handle_events out fs a ((MOUSEBUTTONDOWN p, t) # rest)
         = handle_events out fs (a\<lparr>dragged_emoji := Some ''feed'', drag_pos := Some p\<rparr>) rest"
  using assms by (simp add: handle_event_def mouse_down_def)

lemma handle_events_up:
  "handle_events out fs a [(MOUSEBUTTONUP u, t)] = Inr (True, fs, mouse_up a u)"
  by (simp add: handle_event_def)

lemma app_idle_hits:
  "first_hit (emoji_rects app_idle) (90, 300) = Some ''feed''"
  "pet_rect app_idle = Some screen_pet_rect"
  "collidepoint screen_pet_rect (200, 200)"
  "\<not> collidepoint screen_pet_rect (90, 300)"
  "\<not> collidepoint screen_pet_rect (400, 50)"
  by (simp_all add: app_idle_def feed_rect_def screen_pet_rect_def collidepoint_def)

lemma app_idle_fields:
  "hunger (pet app_idle) = 50" "floating_hearts app_idle = []"
  "app_idle\<lparr>dragged_emoji := None, drag_pos := None\<rparr> = app_idle"
  by (simp_all add: app_idle_def PetState_default_def)

text \<open>
  C7, as stated: a pointer-down inside the feed region followed by a pointer-up at a
  point inside the pet's region feeds the pet. \<open>mouse_up\<close> tests \<open>drag_pos\<close>, which
  only pointer-down and pointer-move set, and never reads the position of the
  pointer-up event: with no move in between, the drop is tested at the pointer-down
  point, hunger stays at 50 and no hearts are spawned.
\<close>

theorem drop_tested_at_drag_pos:
  "first_hit (emoji_rects app_idle) (90, 300) = Some ''feed'' \<and>
   pet_rect app_idle = Some screen_pet_rect \<and>
   collidepoint screen_pet_rect (200, 200) \<and>
   hunger (pet app_idle) = 50 \<and> floating_hearts app_idle = [] \<and>
   handle_events stdout_any fs_empty app_idle
     [(MOUSEBUTTONDOWN (90, 300), 0), (MOUSEBUTTONUP (200, 200), 0)]
     = Inr (True, fs_empty, app_idle)"
proof -
  have "handle_events stdout_any fs_empty app_idle
      [(MOUSEBUTTONDOWN (90, 300), 0), (MOUSEBUTTONUP (200, 200), 0)]
    = Inr (True, fs_empty, app_idle)"
    unfolding handle_events_down [OF app_idle_hits(1)] handle_events_up
      mouse_up_dragging_feed [OF app_idle_hits(2)]
    using app_idle_hits(4) by (simp add: app_idle_fields)
  then show ?thesis
    using app_idle_hits(1,2,3) app_idle_fields(1,2) by simp
qed

text \<open>
  C7, amended: for a pointer-down at a point whose first containing icon region is
  feed, followed by any number of pointer-moves and a pointer-up (wherever the event
  says it is), the drop is tested at the last tracked position: the point of the last
  pointer-move, or the pointer-down point when there was no move. When that position
  is inside the pet's region the pet is fed: hunger falls by exactly the feed amount,
  cut at 0, the hearts of exactly one spawn are added, and the machine is idle again.
  When it is outside, the pointer-up returns to idle with the pet and the hearts
  unchanged.
\<close>

theorem drag_feed_onto_pet:
  assumes "first_hit (emoji_rects a) p = Some ''feed''" and "pet_rect a = Some r"
  shows "handle_events out fs a
           ((MOUSEBUTTONDOWN p, t0) # map (\<lambda>(q, t). (MOUSEMOTION q, t)) qs
              @ [(MOUSEBUTTONUP u, t3)])
         = Inr (True, fs,
             if collidepoint r (last (p # map fst qs))
             then a\<lparr>pet := (pet a)\<lparr>hunger := max 0 (hunger (pet a) - FEED_AMOUNT)\<rparr>,
                    floating_hearts := floating_hearts a @ map (new_heart r) [0, 1, 2],
                    dragged_emoji := None, drag_pos := None\<rparr>
             else a\<lparr>dragged_emoji := None, drag_pos := None\<rparr>)"
  unfolding handle_events_down [OF assms(1)] handle_events_moves handle_events_up
    mouse_up_dragging_feed [OF assms(2)]
  by (simp add: feed_def)

theorem drag_feed_onto_pet_witness:
  "first_hit (emoji_rects app_idle) (90, 300) = Some ''feed'' \<and>
   pet_rect app_idle = Some screen_pet_rect \<and>
   collidepoint screen_pet_rect (200, 200) \<and>
   handle_events stdout_any fs_empty app_idle
     [(MOUSEBUTTONDOWN (90, 300), 0), (MOUSEMOTION (400, 50), 0),
      (MOUSEMOTION (200, 200), 0), (MOUSEBUTTONUP (400, 50), 0)]
     = Inr (True, fs_empty,
         app_idle\<lparr>pet := (pet app_idle)\<lparr>hunger := 25\<rparr>,
           floating_hearts := map (new_heart screen_pet_rect) [0, 1, 2],
           dragged_emoji := None, drag_pos := None\<rparr>) \<and>
   \<not> collidepoint screen_pet_rect (400, 50) \<and>
   handle_events stdout_any fs_empty app_idle
     [(MOUSEBUTTONDOWN (90, 300), 0), (MOUSEMOTION (200, 200), 0),
      (MOUSEMOTION (400, 50), 0), (MOUSEBUTTONUP (200, 200), 0)]
     = Inr (True, fs_empty, app_idle)"
proof -
  note t = drag_feed_onto_pet [OF app_idle_hits(1,2), where out = stdout_any
      and fs = fs_empty and ?t0.0 = 0 and ?t3.0 = 0]
  from t [where qs = "[((400, 50), 0), ((200, 200), 0)]" and u = "(400, 50)"]
    t [where qs = "[((200, 200), 0), ((400, 50), 0)]" and u = "(200, 200)"]
    app_idle_hits app_idle_fields
  show ?thesis by (simp add: FEED_AMOUNT_def)
qed

end
